theory Spec2Isabelle
  imports Complex_Main
begin

section \<open>Gene expression prediction from a gene regulatory network\<close>

text \<open>
  A shallow embedding of \<^verbatim>\<open>src/evaluation/grn_models/gene_expression_prediction.py\<close>.
  The four functions of the module are \<^verbatim>\<open>_select_data\<close> (the Data Selector),
  \<^verbatim>\<open>_fit_model\<close> (the Target Fitter) and the two orchestrators
  \<^verbatim>\<open>_compute_gene_expression_prediction\<close> and
  \<^verbatim>\<open>compute_gene_expression_prediction\<close>. An Isabelle name cannot start with an
  underscore, so a leading underscore of the source is written \<open>u_\<close>.

  Every exception of the source is a value \<open>Inl e\<close> of the result; a normal return is
  \<open>Inr v\<close>. Printing and the progress bar only observe the run and are left out.
\<close>

subsection \<open>Keys, cells and errors\<close>

text \<open>
  A column of a pandas table is looked up by a hashable key: a string or an integer. In
  one place of the module a boolean reaches a column lookup. Python identifies
  \<^verbatim>\<open>True\<close> with 1 and \<^verbatim>\<open>False\<close> with 0 as keys (\<^verbatim>\<open>True == 1\<close>, with equal
  hashes), so a column keyed 1 answers the lookup of \<^verbatim>\<open>True\<close>; a boolean key is
  therefore the integer key it equals.
\<close>

datatype pykey = KStr string | KInt int

definition KBool :: "bool \<Rightarrow> pykey" where
  "KBool b = KInt (if b then 1 else 0)"

datatype error =
    KeyError pykey
  | ValueError string
  | UndefinedVariableError string
  | TypeError string
  | AttributeError

text \<open>
  The cells of the result table: the target identifier, the two float statistics (a float
  may be nan), the integer counts and the array of regulator identifiers.
\<close>

datatype cell =
    CStr string
  | CNum real
  | CNaN
  | CInt int
  | CArr "string list"

subsection \<open>Tables (pandas.DataFrame)\<close>

text \<open>
  A table has its column keys and its rows; a row gives the cell under each key. The
  network table holds identifiers (strings), the result table holds \<^typ>\<open>cell\<close>s.
  A table of zero rows still has its columns.
\<close>

record 'c frame =
  columns :: "pykey list"
  rows :: "(pykey \<Rightarrow> 'c) list"

text \<open>\<^verbatim>\<open>df[key]\<close>: the column, or KeyError when the table has no such column.\<close>

definition getitem :: "'c frame \<Rightarrow> pykey \<Rightarrow> error + 'c list" where
  "getitem df k =
     (if k \<in> set (columns df) then Inr (map (\<lambda>r. r k) (rows df)) else Inl (KeyError k))"

text \<open>\<^verbatim>\<open>df[mask]\<close> with a boolean mask: the rows whose mask entry is true.\<close>

definition getitem_mask :: "'c frame \<Rightarrow> bool list \<Rightarrow> 'c frame" where
  "getitem_mask df bs = df\<lparr>rows := map fst (filter snd (zip (rows df) bs))\<rparr>"

text \<open>\<^verbatim>\<open>Series.unique()\<close>: the distinct values in order of first appearance.\<close>

fun unique_from :: "'a list \<Rightarrow> 'a list \<Rightarrow> 'a list" where
  "unique_from seen [] = []"
| "unique_from seen (x # xs) =
     (if x \<in> set seen then unique_from seen xs else x # unique_from (x # seen) xs)"

definition unique :: "'a list \<Rightarrow> 'a list" where
  "unique xs = unique_from [] xs"

text \<open>
  \<^verbatim>\<open>pd.DataFrame(list_of_dicts)\<close>: the columns are the keys of the dicts in order of
  first appearance, a key missing from a dict gives nan. An empty list gives a table
  with no column at all.
\<close>

definition dict_row :: "(pykey \<times> cell) list \<Rightarrow> pykey \<Rightarrow> cell" where
  "dict_row d k = (case map_of d k of Some v \<Rightarrow> v | None \<Rightarrow> CNaN)"

definition pd_DataFrame :: "(pykey \<times> cell) list list \<Rightarrow> cell frame" where
  "pd_DataFrame ds = \<lparr>columns = unique (concat (map (map fst) ds)), rows = map dict_row ds\<rparr>"

text \<open>\<^verbatim>\<open>df[key] = values\<close>: overwrites the column, or appends it as the last one.\<close>

definition setitem :: "'c frame \<Rightarrow> pykey \<Rightarrow> 'c list \<Rightarrow> 'c frame" where
  "setitem df k vs =
     \<lparr>columns = (if k \<in> set (columns df) then columns df else columns df @ [k]),
      rows = map (\<lambda>(r, v). r(k := v)) (zip (rows df) vs)\<rparr>"

text \<open>\<^verbatim>\<open>len\<close> on a cell, and \<^verbatim>\<open>Series.apply(len)\<close>.\<close>

fun py_len :: "cell \<Rightarrow> error + int" where
  "py_len (CArr xs) = Inr (int (length xs))"
| "py_len (CStr s) = Inr (int (length s))"
| "py_len (CNum x) = Inl (TypeError ''object of type float has no len()'')"
| "py_len CNaN = Inl (TypeError ''object of type float has no len()'')"
| "py_len (CInt n) = Inl (TypeError ''object of type int has no len()'')"

fun sequence :: "(error + 'a) list \<Rightarrow> error + 'a list" where
  "sequence [] = Inr []"
| "sequence (t # ts) =
     (case t of
        Inl e \<Rightarrow> Inl e
      | Inr v \<Rightarrow> (case sequence ts of Inl e \<Rightarrow> Inl e | Inr vs \<Rightarrow> Inr (v # vs)))"

definition apply_len :: "cell list \<Rightarrow> error + cell list" where
  "apply_len cs =
     (case sequence (map py_len cs) of Inl e \<Rightarrow> Inl e | Inr ns \<Rightarrow> Inr (map CInt ns))"

subsection \<open>The expression dataset (anndata.AnnData) and arrays\<close>

text \<open>
  A two-dimensional array carries its shape, so that an array of zero rows or zero
  columns keeps the other dimension, as numpy's does. Floats are idealised as reals.
\<close>

record ndarray =
  shape0 :: nat
  shape1 :: nat
  entry :: "nat \<Rightarrow> nat \<Rightarrow> real"

text \<open>
  The dataset: the feature index \<^verbatim>\<open>adata.var.index\<close>, the number of samples, the
  default matrix \<^verbatim>\<open>adata.X\<close> and the named layers. Every matrix of a dataset has the
  shape (samples, features), which AnnData enforces; a sparse matrix and its dense form
  (\<^verbatim>\<open>toarray\<close>) are the same array here.
\<close>

record adata =
  var_index :: "string list"
  n_obs :: nat
  X_matrix :: "nat \<Rightarrow> nat \<Rightarrow> real"
  layers :: "string \<rightharpoonup> (nat \<Rightarrow> nat \<Rightarrow> real)"

text \<open>\<^verbatim>\<open>np.where(mask)[0]\<close>: the positions of the true entries, ascending.\<close>

definition np_where :: "bool list \<Rightarrow> nat list" where
  "np_where bs = filter (\<lambda>i. bs ! i) [0..<length bs]"

text \<open>\<^verbatim>\<open>adata[:, idx]\<close> read through one of its matrices: all samples, the features at idx.\<close>

definition take_features :: "adata \<Rightarrow> (nat \<Rightarrow> nat \<Rightarrow> real) \<Rightarrow> nat list \<Rightarrow> ndarray" where
  "take_features ad M idx =
     \<lparr>shape0 = n_obs ad, shape1 = length idx, entry = (\<lambda>i j. M i (idx ! j))\<rparr>"

text \<open>\<^verbatim>\<open>y.flatten()\<close>: row-major.\<close>

definition flatten :: "ndarray \<Rightarrow> real list" where
  "flatten a = concat (map (\<lambda>i. map (\<lambda>j. entry a i j) [0..<shape1 a]) [0..<shape0 a])"

text \<open>
  \<^verbatim>\<open>a - b\<close> on one-dimensional arrays, with numpy's broadcasting of a length-one
  operand, and \<^verbatim>\<open>np.mean\<close>, which is nan on an empty array.
\<close>

definition np_sub :: "real list \<Rightarrow> real list \<Rightarrow> error + real list" where
  "np_sub a b =
     (if length a = length b then Inr (map (\<lambda>(u, v). u - v) (zip a b))
      else if length a = 1 then Inr (map (\<lambda>v. hd a - v) b)
      else if length b = 1 then Inr (map (\<lambda>u. u - hd b) a)
      else Inl (ValueError ''operands could not be broadcast together''))"

definition np_mean :: "real list \<Rightarrow> cell" where
  "np_mean xs = (if xs = [] then CNaN else CNum (sum_list xs / real (length xs)))"

subsection \<open>The regression estimator\<close>

text \<open>
  The estimator is the caller's: the module only calls \<^verbatim>\<open>fit\<close>, \<^verbatim>\<open>score\<close> and
  \<^verbatim>\<open>predict\<close>. Each may raise. \<^verbatim>\<open>fit\<close> overwrites whatever the estimator learnt
  before, so the fitted state \<open>'m\<close> is a result of the call.
\<close>

record 'm estimator =
  fit :: "ndarray \<Rightarrow> real list \<Rightarrow> error + 'm"
  score :: "'m \<Rightarrow> ndarray \<Rightarrow> real list \<Rightarrow> error + real"
  predict :: "'m \<Rightarrow> ndarray \<Rightarrow> error + real list"

subsection \<open>The Data Selector: \<^verbatim>\<open>_select_data\<close>\<close>

definition u_select_data ::
  "string frame \<Rightarrow> adata \<Rightarrow> string \<Rightarrow> pykey \<Rightarrow> pykey \<Rightarrow> string option \<Rightarrow> bool
     \<Rightarrow> error + (ndarray \<times> real list \<times> string list option)" where
  "u_select_data grn ad target source_key target_key layer return_regulators =
     (case getitem grn target_key of
        Inl e \<Rightarrow> Inl e
      | Inr tcol \<Rightarrow>
          let sub_grn = getitem_mask grn (map (\<lambda>v. v = target) tcol) in
          (case getitem sub_grn source_key of
             Inl e \<Rightarrow> Inl e
           | Inr regulators \<Rightarrow>
               let regulator_idx = np_where (map (\<lambda>g. g \<in> set regulators) (var_index ad));
                   target_idx = np_where (map (\<lambda>g. g = target) (var_index ad));
                   ret = (if return_regulators then Some regulators else None)
               in (case layer of
                     Some l \<Rightarrow>
                       (case layers ad l of
                          None \<Rightarrow> Inl (ValueError (''Layer '' @ l @ '' not found in adata.''))
                        | Some M \<Rightarrow>
                            Inr (take_features ad M regulator_idx,
                                 flatten (take_features ad M target_idx), ret))
                   | None \<Rightarrow>
                       Inr (take_features ad (X_matrix ad) regulator_idx,
                            flatten (take_features ad (X_matrix ad) target_idx), ret))))"

subsection \<open>The Target Fitter: \<^verbatim>\<open>_fit_model\<close>\<close>

text \<open>
  The result is \<open>None\<close> for a skipped target and otherwise the dict of the fit, as the
  list of its items. \<^verbatim>\<open>verbose\<close> only decides whether the skip is printed.
\<close>

definition u_fit_model ::
  "string frame \<Rightarrow> adata \<Rightarrow> string \<Rightarrow> 'm estimator \<Rightarrow> int \<Rightarrow> pykey \<Rightarrow> pykey
     \<Rightarrow> string option \<Rightarrow> bool \<Rightarrow> error + (pykey \<times> cell) list option" where
  "u_fit_model grn ad target model min_regulators source_key target_key layer verbose =
     (case u_select_data grn ad target source_key target_key layer True of
        Inl e \<Rightarrow> Inl e
      | Inr (X, y, None) \<Rightarrow> Inl (ValueError ''not enough values to unpack'')
      | Inr (X, y, Some regulators) \<Rightarrow>
          let n_cells = shape0 X; n_regulators = shape1 X in
          if int n_regulators < min_regulators then Inr None
          else
            (case fit model X y of
               Inl e \<Rightarrow> Inl e
             | Inr m \<Rightarrow>
                 (case score model m X y of
                    Inl e \<Rightarrow> Inl e
                  | Inr r2 \<Rightarrow>
                      (case predict model m X of
                         Inl e \<Rightarrow> Inl e
                       | Inr p \<Rightarrow>
                           (case np_sub p y of
                              Inl e \<Rightarrow> Inl e
                            | Inr d \<Rightarrow>
                                Inr (Some [(KStr ''target'', CStr target),
                                           (KStr ''r2'', CNum r2),
                                           (KStr ''mse'', np_mean (map (\<lambda>v. v ^ 2) d)),
                                           (KStr ''n_cells'', CInt (int n_cells)),
                                           (KStr ''regulators'', CArr regulators)]))))))"

subsection \<open>The orchestrators\<close>

text \<open>
  \<^verbatim>\<open>Parallel(n_jobs=n_jobs)(tasks)\<close>: joblib rejects the worker count 0 with a
  ValueError before any task runs. For every other worker count it returns the results
  of the tasks in the order of the tasks, and an exception of a task leaves the call.
  The tasks of this module read their inputs only, so the model evaluates them in order.
  When several tasks fail, the model raises the failure that is first in task order,
  which is what one worker does; several workers raise the one that is first in time.
  Wherever a statement below names the error of a batch, all its tasks fail with that
  same error.
\<close>

definition Parallel :: "int \<Rightarrow> (error + 'a) list \<Rightarrow> error + 'a list" where
  "Parallel n_jobs tasks =
     (if n_jobs = 0 then Inl (ValueError ''n_jobs == 0 in Parallel has no meaning'')
      else sequence tasks)"

text \<open>\<^verbatim>\<open>[r for r in results if r is not None]\<close>\<close>

definition not_None :: "'a option list \<Rightarrow> 'a list" where
  "not_None rs = concat (map (\<lambda>r. case r of None \<Rightarrow> [] | Some v \<Rightarrow> [v]) rs)"

definition u_compute_gene_expression_prediction ::
  "string frame \<Rightarrow> adata \<Rightarrow> 'm estimator \<Rightarrow> int \<Rightarrow> pykey \<Rightarrow> pykey \<Rightarrow> string option
     \<Rightarrow> int \<Rightarrow> bool \<Rightarrow> error + cell frame" where
  "u_compute_gene_expression_prediction grn ad model min_regulators source_key target_key
       layer n_jobs verbose =
     (case getitem grn target_key of
        Inl e \<Rightarrow> Inl e
      | Inr tcol \<Rightarrow>
          let targets = unique tcol in
          (case Parallel n_jobs
                  (map (\<lambda>target. u_fit_model grn ad target model min_regulators
                                   source_key target_key layer verbose) targets) of
             Inl e \<Rightarrow> Inl e
           | Inr results \<Rightarrow>
               let results = pd_DataFrame (not_None results) in
               (case getitem results (KStr ''regulators'') of
                  Inl e \<Rightarrow> Inl e
                | Inr regs \<Rightarrow>
                    (case apply_len regs of
                       Inl e \<Rightarrow> Inl e
                     | Inr ns \<Rightarrow> Inr (setitem results (KStr ''n_regulators'') ns)))))"

text \<open>
  The dataset store (mudata.MuData) as the module uses it: the entry under \<^verbatim>\<open>grn_key\<close>
  is read as a table, the entry under \<^verbatim>\<open>data_key\<close> as a dataset, and \<^verbatim>\<open>uns\<close> is the
  auxiliary namespace.
\<close>

record mudata =
  grn_mod :: "string \<rightharpoonup> string frame"
  data_mod :: "string \<rightharpoonup> adata"
  uns :: "string \<rightharpoonup> cell frame"

definition mdata_grn :: "mudata \<Rightarrow> string \<Rightarrow> error + string frame" where
  "mdata_grn md k = (case grn_mod md k of None \<Rightarrow> Inl (KeyError (KStr k)) | Some g \<Rightarrow> Inr g)"

definition mdata_data :: "mudata \<Rightarrow> string \<Rightarrow> error + adata" where
  "mdata_data md k = (case data_mod md k of None \<Rightarrow> Inl (KeyError (KStr k)) | Some a \<Rightarrow> Inr a)"

text \<open>
  \<^verbatim>\<open>mudata.MuData({grn_key: mdata[grn_key].copy(), data_key: mdata[data_key].copy()})\<close>:
  the two entries are looked up first, and then the constructor is given a table where
  it needs a dataset and raises AttributeError. No store is ever built this way.
\<close>

definition MuData_copy :: "mudata \<Rightarrow> string \<Rightarrow> string \<Rightarrow> error + mudata" where
  "MuData_copy md grn_key data_key =
     (case mdata_grn md grn_key of
        Inl e \<Rightarrow> Inl e
      | Inr g \<Rightarrow>
          (case mdata_data md data_key of
             Inl e \<Rightarrow> Inl e
           | Inr a \<Rightarrow> Inl AttributeError))"

text \<open>
  \<^verbatim>\<open>grn.query("celltype == @celltype")\<close>: the rows of that cell type; a table without
  a \<^verbatim>\<open>celltype\<close> column cannot resolve the name.
\<close>

definition query_celltype :: "string frame \<Rightarrow> string \<Rightarrow> error + string frame" where
  "query_celltype grn c =
     (if KStr ''celltype'' \<in> set (columns grn)
      then Inr (grn\<lparr>rows := filter (\<lambda>r. r (KStr ''celltype'') = c) (rows grn)\<rparr>)
      else Inl (UndefinedVariableError ''celltype''))"

text \<open>\<^verbatim>\<open>if celltype is not None: grn = grn.query(...)\<close>\<close>

definition celltype_subset :: "string option \<Rightarrow> string frame \<Rightarrow> error + string frame" where
  "celltype_subset celltype grn =
     (case celltype of None \<Rightarrow> Inr grn | Some c \<Rightarrow> query_celltype grn c)"

text \<open>
  The public entry point. It returns the store as the caller sees it after the call and
  the returned value (\<open>None\<close> when the table went into the store). Without
  \<^verbatim>\<open>inplace\<close> the first statement rebuilds the store and raises. The call of
  \<^verbatim>\<open>_fit_model\<close> is positional with six arguments: the sixth parameter of
  \<^verbatim>\<open>_fit_model\<close> is \<^verbatim>\<open>source_key\<close>, so it receives \<^verbatim>\<open>verbose\<close>, and
  \<^verbatim>\<open>target_key\<close>, \<^verbatim>\<open>layer\<close> and \<^verbatim>\<open>verbose\<close> take their defaults.
\<close>

definition compute_gene_expression_prediction ::
  "mudata \<Rightarrow> string \<Rightarrow> string option \<Rightarrow> string \<Rightarrow> 'm estimator \<Rightarrow> int \<Rightarrow> int \<Rightarrow> bool \<Rightarrow> bool
     \<Rightarrow> error + (mudata \<times> cell frame option)" where
  "compute_gene_expression_prediction mdata grn_key celltype data_key model min_regulators
       n_jobs verbose inplace =
     (case (if \<not> inplace then MuData_copy mdata grn_key data_key else Inr mdata) of
        Inl e \<Rightarrow> Inl e
      | Inr md \<Rightarrow>
          (case mdata_grn md grn_key of
             Inl e \<Rightarrow> Inl e
           | Inr grn0 \<Rightarrow>
               (case celltype_subset celltype grn0 of
                  Inl e \<Rightarrow> Inl e
                | Inr grn \<Rightarrow>
                    (case mdata_data md data_key of
                       Inl e \<Rightarrow> Inl e
                     | Inr ad \<Rightarrow>
                         (case getitem grn (KStr ''target'') of
                            Inl e \<Rightarrow> Inl e
                          | Inr tcol \<Rightarrow>
                              let targets = unique tcol in
                              (case Parallel n_jobs
                                      (map (\<lambda>target. u_fit_model grn ad target model
                                               min_regulators (KBool verbose) (KStr ''gene'')
                                               None True) targets) of
                                 Inl e \<Rightarrow> Inl e
                               | Inr results \<Rightarrow>
                                   let results = pd_DataFrame (not_None results) in
                                   if inplace
                                   then Inr (md\<lparr>uns := (uns md)
                                               (''gene_expression_prediction'' \<mapsto> results)\<rparr>,
                                             None)
                                   else Inr (mdata, Some results)))))))"

subsection \<open>Regulators of a target\<close>

text \<open>
  Lines 29 and 30 of the source, read row by row: the \<^verbatim>\<open>source_key\<close> values of the
  edges whose \<^verbatim>\<open>target_key\<close> is the target.
\<close>

definition declared_regulators :: "string frame \<Rightarrow> string \<Rightarrow> pykey \<Rightarrow> pykey \<Rightarrow> string list" where
  "declared_regulators grn target source_key target_key =
     map (\<lambda>r. r source_key) (filter (\<lambda>r. r target_key = target) (rows grn))"

text \<open>
  Line 31 of the source: the entries of the feature index that name a declared
  regulator. Their number is the number of columns of X.
\<close>

definition regulator_features :: "string frame \<Rightarrow> adata \<Rightarrow> string \<Rightarrow> pykey \<Rightarrow> pykey \<Rightarrow> string list" where
  "regulator_features grn ad target source_key target_key =
     filter (\<lambda>g. g \<in> set (declared_regulators grn target source_key target_key)) (var_index ad)"

text \<open>
  The regulator set in the words of the specification (section 3): the distinct source
  identifiers of the target's edges that the feature index resolves. Its length is the
  resolvable regulator count of the specification.
\<close>

definition spec_resolvable_regulators ::
  "string frame \<Rightarrow> adata \<Rightarrow> string \<Rightarrow> pykey \<Rightarrow> pykey \<Rightarrow> string list" where
  "spec_resolvable_regulators grn ad target source_key target_key =
     remdups (filter (\<lambda>s. s \<in> set (var_index ad))
                (declared_regulators grn target source_key target_key))"

text \<open>The layer argument names nothing, or a layer that the dataset has.\<close>

definition layer_present :: "adata \<Rightarrow> string option \<Rightarrow> bool" where
  "layer_present ad layer = (case layer of None \<Rightarrow> True | Some l \<Rightarrow> layers ad l \<noteq> None)"

subsection \<open>Observing a table, and the inputs used as examples\<close>

text \<open>\<^verbatim>\<open>df.values.tolist()\<close>: the cells of each row in column order.\<close>

definition values_tolist :: "'c frame \<Rightarrow> 'c list list" where
  "values_tolist df = map (\<lambda>r. map r (columns df)) (rows df)"

text \<open>
  An edge of a network table: the regulator under \<^verbatim>\<open>tf\<close>, the target gene under
  \<^verbatim>\<open>gene\<close> and under \<^verbatim>\<open>target\<close>.
\<close>

definition edge :: "string \<Rightarrow> string \<Rightarrow> pykey \<Rightarrow> string" where
  "edge s t k =
     (if k = KStr ''tf'' then s
      else if k = KStr ''gene'' then t
      else if k = KStr ''target'' then t
      else [])"

text \<open>Gene G with the regulators A, a feature of the dataset below, and Z, which is not.\<close>

definition grn_unresolved :: "string frame" where
  "grn_unresolved =
     \<lparr>columns = [KStr ''tf'', KStr ''gene''], rows = [edge ''A'' ''G'', edge ''Z'' ''G'']\<rparr>"

text \<open>Gene G regulated by A, and gene H whose only regulator Z is not in the dataset.\<close>

definition grn_skip :: "string frame" where
  "grn_skip =
     \<lparr>columns = [KStr ''tf'', KStr ''gene''], rows = [edge ''A'' ''G'', edge ''Z'' ''H'']\<rparr>"

text \<open>The edge from A to G listed twice.\<close>

definition grn_dup :: "string frame" where
  "grn_dup =
     \<lparr>columns = [KStr ''tf'', KStr ''gene''], rows = [edge ''A'' ''G'', edge ''A'' ''G'']\<rparr>"

text \<open>One edge, in a table that has a \<^verbatim>\<open>target\<close> column beside \<^verbatim>\<open>tf\<close> and \<^verbatim>\<open>gene\<close>.\<close>

definition grn_target :: "string frame" where
  "grn_target =
     \<lparr>columns = [KStr ''tf'', KStr ''gene'', KStr ''target''], rows = [edge ''A'' ''G'']\<rparr>"

text \<open>
  The edge from A to G in a table whose regulator column is keyed by \<^verbatim>\<open>True\<close>.
\<close>

definition grn_bool_key :: "string frame" where
  "grn_bool_key =
     \<lparr>columns = [KBool True, KStr ''gene'', KStr ''target''],
      rows = [(edge ''A'' ''G'')(KBool True := ''A'')]\<rparr>"

text \<open>A dataset of two samples in which the feature name A occurs twice.\<close>

definition adata_repeated :: adata where
  "adata_repeated =
     \<lparr>var_index = [''A'', ''A'', ''G''], n_obs = 2, X_matrix = (\<lambda>i j. 0), layers = Map.empty\<rparr>"

text \<open>A dataset of two samples and the features A, G and H, without layers.\<close>

definition ex_adata :: adata where
  "ex_adata =
     \<lparr>var_index = [''A'', ''G'', ''H''], n_obs = 2, X_matrix = (\<lambda>i j. 0), layers = Map.empty\<rparr>"

text \<open>An estimator that always fits, scores 1 and predicts 0 for every sample.\<close>

definition unit_estimator :: "unit estimator" where
  "unit_estimator =
     \<lparr>fit = (\<lambda>X y. Inr ()), score = (\<lambda>m X y. Inr 1),
      predict = (\<lambda>m X. Inr (replicate (shape0 X) 0))\<rparr>"

text \<open>Stores holding a network under \<^verbatim>\<open>grn\<close> and the dataset under \<^verbatim>\<open>rna\<close>.\<close>

definition ex_mdata :: "string frame \<Rightarrow> mudata" where
  "ex_mdata g = \<lparr>grn_mod = [''grn'' \<mapsto> g], data_mod = [''rna'' \<mapsto> ex_adata], uns = Map.empty\<rparr>"

section \<open>Properties\<close>

subsection \<open>Auxiliary facts\<close>

lemmas ex_defs = grn_unresolved_def grn_skip_def grn_dup_def grn_target_def grn_bool_key_def
  ex_adata_def adata_repeated_def unit_estimator_def edge_def ex_mdata_def

lemmas model_defs = u_compute_gene_expression_prediction_def u_fit_model_def u_select_data_def
  getitem_def getitem_mask_def unique_def Parallel_def not_None_def pd_DataFrame_def
  setitem_def apply_len_def np_where_def take_features_def flatten_def np_sub_def np_mean_def
  dict_row_def values_tolist_def KBool_def Let_def numeral_2_eq_2

lemmas public_defs = compute_gene_expression_prediction_def mdata_grn_def mdata_data_def
  MuData_copy_def celltype_subset_def query_celltype_def

lemma sequence_InrD: "sequence ts = Inr vs \<Longrightarrow> ts = map Inr vs"
  by (induction ts arbitrary: vs) (auto split: sum.splits)

lemma sequence_all_Inl: "ts \<noteq> [] \<Longrightarrow> \<forall>t\<in>set ts. t = Inl e \<Longrightarrow> sequence ts = Inl e"
  by (cases ts) auto

lemma set_unique_from: "set (unique_from seen xs) = set xs - set seen"
  by (induction xs arbitrary: seen) auto

lemma set_unique: "set (unique xs) = set xs"
  by (simp add: unique_def set_unique_from)

lemma unique_Nil_iff: "unique xs = [] \<longleftrightarrow> xs = []"
  using set_unique [of xs] by (metis set_empty)

lemma mask_rows: "map fst (filter snd (zip rs (map P rs))) = filter P rs"
  by (induction rs) auto

lemma getitem_mask_rows:
  "rows (getitem_mask df (map P (map (\<lambda>r. r k) (rows df)))) = filter (\<lambda>r. P (r k)) (rows df)"
  using mask_rows [where P="\<lambda>r. P (r k)" and rs="rows df"]
  by (simp add: getitem_mask_def comp_def)

lemma columns_getitem_mask: "columns (getitem_mask df bs) = columns df"
  by (simp add: getitem_mask_def)

lemma length_np_where: "length (np_where (map P xs)) = length (filter P xs)"
proof (induction xs rule: rev_induct)
  case Nil
  show ?case by (simp add: np_where_def)
next
  case (snoc x xs)
  have "filter (\<lambda>i. map P (xs @ [x]) ! i) [0..<length xs]
          = filter (\<lambda>i. map P xs ! i) [0..<length xs]"
    by (rule filter_cong) (auto simp: nth_append)
  with snoc show ?case by (simp add: np_where_def nth_append)
qed

lemma select_data_InrD:
  assumes "u_select_data grn ad target sk tk layer rr = Inr (X, y, ro)"
  shows "sk \<in> set (columns grn) \<and> tk \<in> set (columns grn) \<and> shape0 X = n_obs ad
     \<and> ro = (if rr then Some (map (\<lambda>r. r sk) (filter (\<lambda>r. r tk = target) (rows grn)))
             else None)"
  using assms getitem_mask_rows [where P="\<lambda>v. v = target" and k=tk and df=grn]
  by (auto simp: u_select_data_def getitem_def Let_def columns_getitem_mask take_features_def
      split: if_splits option.splits)

text \<open>The width of X is the number of feature-index entries that name a declared regulator.\<close>

lemma select_data_shape1:
  assumes "u_select_data grn ad target sk tk layer rr = Inr (X, y, ro)"
  shows "shape1 X = length (regulator_features grn ad target sk tk)"
  using assms getitem_mask_rows [where P="\<lambda>v. v = target" and k=tk and df=grn]
  by (auto simp: u_select_data_def getitem_def Let_def columns_getitem_mask take_features_def
      length_np_where regulator_features_def declared_regulators_def
      split: if_splits option.splits)

text \<open>The Data Selector returns when the two columns and the layer are there.\<close>

lemma select_data_returns:
  assumes "sk \<in> set (columns grn)" "tk \<in> set (columns grn)" "layer_present ad layer"
  shows "\<exists>X y. u_select_data grn ad target sk tk layer True
                 = Inr (X, y, Some (declared_regulators grn target sk tk))"
  using assms getitem_mask_rows [where P="\<lambda>v. v = target" and k=tk and df=grn]
  by (auto simp: u_select_data_def getitem_def Let_def columns_getitem_mask layer_present_def
      declared_regulators_def split: option.splits)

text \<open>
  When no feature name is repeated, that number is the resolvable regulator count of the
  specification.
\<close>

lemma regulator_features_distinct:
  assumes "distinct (var_index ad)"
  shows "length (regulator_features grn ad target sk tk)
           = length (spec_resolvable_regulators grn ad target sk tk)"
proof -
  let ?regs = "declared_regulators grn target sk tk"
  have "distinct (filter (\<lambda>g. g \<in> set ?regs) (var_index ad))"
    using assms by simp
  then have "length (filter (\<lambda>g. g \<in> set ?regs) (var_index ad))
               = card (set (filter (\<lambda>g. g \<in> set ?regs) (var_index ad)))"
    by (rule distinct_card [symmetric])
  also have "set (filter (\<lambda>g. g \<in> set ?regs) (var_index ad))
               = set (filter (\<lambda>s. s \<in> set (var_index ad)) ?regs)"
    by auto
  also have "card \<dots> = length (remdups (filter (\<lambda>s. s \<in> set (var_index ad)) ?regs))"
    by (simp add: length_remdups_card_conv)
  finally show ?thesis
    by (simp add: regulator_features_def spec_resolvable_regulators_def)
qed

lemma fit_model_SomeD:
  assumes "u_fit_model grn ad target model mr sk tk layer verbose = Inr (Some d)"
  shows "\<exists>X y regs r2 mse.
           u_select_data grn ad target sk tk layer True = Inr (X, y, Some regs)
         \<and> \<not> int (shape1 X) < mr
         \<and> d = [(KStr ''target'', CStr target), (KStr ''r2'', CNum r2), (KStr ''mse'', mse),
                (KStr ''n_cells'', CInt (int (shape0 X))), (KStr ''regulators'', CArr regs)]"
  using assms
  by (auto simp: u_fit_model_def Let_def split: sum.splits option.splits if_splits prod.splits)

lemma fit_model_Inl:
  "u_select_data grn ad target sk tk layer True = Inl e
   \<Longrightarrow> u_fit_model grn ad target model mr sk tk layer verbose = Inl e"
  by (simp add: u_fit_model_def)

lemma Parallel_all_Inl:
  assumes "n_jobs \<noteq> 0" "xs \<noteq> []" "\<And>x. f x = Inl e"
  shows "Parallel n_jobs (map f xs) = Inl e"
  using assms by (simp add: Parallel_def sequence_all_Inl)

lemma select_data_KeyError:
  assumes "sk \<notin> set (columns grn) \<or> tk \<notin> set (columns grn)"
  shows "u_select_data grn ad target sk tk layer rr
           = Inl (KeyError (if tk \<notin> set (columns grn) then tk else sk))"
  using assms by (auto simp: u_select_data_def getitem_def columns_getitem_mask Let_def)

lemma rows_pd_DataFrame: "rows (pd_DataFrame ds) = map dict_row ds"
  by (simp add: pd_DataFrame_def)

lemma not_None_mem: "d \<in> set (not_None rs) \<longleftrightarrow> Some d \<in> set rs"
  by (induction rs) (auto simp: not_None_def split: option.splits)

lemma Parallel_InrD:
  assumes "Parallel n_jobs (map f xs) = Inr rs" "v \<in> set rs"
  shows "\<exists>x\<in>set xs. f x = Inr v"
proof -
  from assms(1) have "map f xs = map Inr rs"
    by (simp add: Parallel_def sequence_InrD split: if_splits)
  then have "Inr v \<in> set (map f xs)" using assms(2) by simp
  then show ?thesis by auto
qed

lemma apply_len_InrD:
  assumes "apply_len cs = Inr ns"
  shows "length ns = length cs
     \<and> (\<forall>i<length cs. \<exists>n. py_len (cs ! i) = Inr n \<and> ns ! i = CInt n)"
proof -
  from assms obtain ls where s: "sequence (map py_len cs) = Inr ls" and ns: "ns = map CInt ls"
    by (auto simp: apply_len_def split: sum.splits)
  from s have m: "map py_len cs = map Inr ls" by (rule sequence_InrD)
  then have len: "length cs = length ls" by (metis length_map)
  have "py_len (cs ! i) = Inr (ls ! i)" if "i < length cs" for i
    using m that len by (metis nth_map)
  then show ?thesis using ns len by auto
qed

lemma setitem_rows_mem:
  assumes "r \<in> set (rows (setitem df k vs))" "length vs = length (rows df)"
  shows "\<exists>i<length (rows df). r = (rows df ! i)(k := vs ! i)"
  using assms by (auto simp: setitem_def set_zip)

text \<open>
  Where a row of the table of \<^verbatim>\<open>_compute_gene_expression_prediction\<close> comes from: the
  dict that \<^verbatim>\<open>_fit_model\<close> returned for one target, with the derived column added.
\<close>

lemma compute_rowD:
  assumes ok: "u_compute_gene_expression_prediction grn ad model mr sk tk layer n_jobs verbose
                 = Inr table"
      and r: "r \<in> set (rows table)"
  shows "\<exists>target d regs.
           u_fit_model grn ad target model mr sk tk layer verbose = Inr (Some d)
         \<and> dict_row d (KStr ''regulators'') = CArr regs
         \<and> r = (dict_row d)(KStr ''n_regulators'' := CInt (int (length regs)))"
proof -
  from ok obtain tcol results regs ns where
        par: "Parallel n_jobs
                (map (\<lambda>target. u_fit_model grn ad target model mr sk tk layer verbose)
                   (unique tcol)) = Inr results"
    and gi: "getitem (pd_DataFrame (not_None results)) (KStr ''regulators'') = Inr regs"
    and al: "apply_len regs = Inr ns"
    and tab: "table = setitem (pd_DataFrame (not_None results)) (KStr ''n_regulators'') ns"
    by (auto simp: u_compute_gene_expression_prediction_def Let_def split: sum.splits)
  let ?ds = "not_None results"
  from gi have regs: "regs = map (\<lambda>d. dict_row d (KStr ''regulators'')) ?ds"
    by (auto simp: getitem_def rows_pd_DataFrame split: if_splits)
  from apply_len_InrD [OF al] regs
  have len: "length ns = length ?ds"
    and each: "\<forall>i<length ?ds. \<exists>n. py_len (dict_row (?ds ! i) (KStr ''regulators'')) = Inr n
                 \<and> ns ! i = CInt n"
    by auto
  from r tab len obtain i where i: "i < length ?ds"
    and ri: "r = (dict_row (?ds ! i))(KStr ''n_regulators'' := ns ! i)"
    using setitem_rows_mem [of r "pd_DataFrame ?ds" "KStr ''n_regulators''" ns]
    by (auto simp: rows_pd_DataFrame)
  let ?d = "?ds ! i"
  from i have "Some ?d \<in> set results" using not_None_mem [of ?d results] by simp
  from Parallel_InrD [OF par this] obtain target where
    fm: "u_fit_model grn ad target model mr sk tk layer verbose = Inr (Some ?d)" by blast
  from fit_model_SomeD [OF fm] obtain rg where rg: "dict_row ?d (KStr ''regulators'') = CArr rg"
    by (auto simp: dict_row_def)
  from each i rg have "ns ! i = CInt (int (length rg))" by auto
  with fm rg ri show ?thesis by auto
qed

subsection \<open>The empty network\<close>

text \<open>
  Claim C1 says that a network table of zero rows yields an empty result table and no
  error. In \<^verbatim>\<open>_compute_gene_expression_prediction\<close> it does not: no target is
  enumerated, \<^verbatim>\<open>pd.DataFrame([])\<close> has no column, and the lookup
  \<^verbatim>\<open>results["regulators"]\<close> raises KeyError. This holds for every table of zero rows
  that has the \<^verbatim>\<open>target_key\<close> column (without it the enumeration of the targets raises
  KeyError already), every dataset, estimator, threshold and layer, and every worker
  count but 0, which joblib rejects with its own error. No input of zero rows gives a
  table.
\<close>

theorem empty_network_raises_KeyError:
  "u_compute_gene_expression_prediction (grn\<lparr>rows := []\<rparr>) ad model min_regulators
       source_key target_key layer n_jobs verbose =
     Inl (if target_key \<notin> set (columns grn) then KeyError target_key
          else if n_jobs = 0 then ValueError ''n_jobs == 0 in Parallel has no meaning''
          else KeyError (KStr ''regulators''))"
  by (simp add: u_compute_gene_expression_prediction_def getitem_def unique_def Parallel_def
      not_None_def pd_DataFrame_def)

subsection \<open>Regulators that the dataset does not have\<close>

text \<open>
  Claim C2 says that regulators absent from the dataset's feature index are dropped
  without error, that only the resolvable ones build X, and that the row's
  \<^verbatim>\<open>n_regulators\<close> counts only those. The first two hold; the count does not. Inside
  \<^verbatim>\<open>_fit_model\<close> the name \<^verbatim>\<open>n_regulators\<close> is the number of columns of X, but the
  row keeps the unfiltered \<^verbatim>\<open>regulators\<close> array and the orchestrator derives the column
  \<^verbatim>\<open>n_regulators\<close> from its length. For gene G with the declared regulators A (a
  feature of the dataset) and Z (not one), X has one column, and the row reports the
  regulators A and Z and \<^verbatim>\<open>n_regulators\<close> = 2, for every worker count that joblib
  accepts.
\<close>

theorem unresolved_regulator_is_counted:
  "map_sum id (\<lambda>(X, y, regs). (shape1 X, regs))
       (u_select_data grn_unresolved ex_adata ''G'' (KStr ''tf'') (KStr ''gene'') None True)
     = Inr (1, Some [''A'', ''Z''])
   \<and> map_sum id values_tolist
       (u_compute_gene_expression_prediction grn_unresolved ex_adata unit_estimator 1
          (KStr ''tf'') (KStr ''gene'') None n_jobs verbose)
     = (if n_jobs = 0 then Inl (ValueError ''n_jobs == 0 in Parallel has no meaning'')
        else Inr [[CStr ''G'', CNum 1, CNum 0, CInt 2, CArr [''A'', ''Z''], CInt 2]])"
  by (simp add: ex_defs model_defs)

subsection \<open>Skipped targets\<close>

text \<open>
  Claim C3 says that a target whose resolvable regulator count is strictly below
  \<^verbatim>\<open>min_regulators\<close> is skipped and has no row in the result table. The source does
  not test that count: it tests the number of columns of X, which is the number of
  entries of the feature index that name a regulator of the target. A feature name that
  occurs twice in the index is counted twice. Gene G has the single regulator A; in a
  dataset whose index lists A twice its resolvable regulator count is 1, below the
  threshold 2, and yet G is fitted on two columns and has its row.
\<close>

theorem repeated_feature_name_escapes_skip:
  "int (length (spec_resolvable_regulators grn_target adata_repeated ''G''
                  (KStr ''tf'') (KStr ''gene''))) < 2
   \<and> map_sum id (map_option (map fst))
       (u_fit_model grn_target adata_repeated ''G'' unit_estimator 2
          (KStr ''tf'') (KStr ''gene'') None True)
     = Inr (Some [KStr ''target'', KStr ''r2'', KStr ''mse'', KStr ''n_cells'',
                  KStr ''regulators''])
   \<and> map_sum id values_tolist
       (u_compute_gene_expression_prediction grn_target adata_repeated unit_estimator 2
          (KStr ''tf'') (KStr ''gene'') None 1 True)
     = Inr [[CStr ''G'', CNum 1, CNum 0, CInt 2, CArr [''A''], CInt 1]]"
  by (simp add: ex_defs model_defs spec_resolvable_regulators_def declared_regulators_def)

text \<open>
  Claim C3 as amended: for a network table with its \<^verbatim>\<open>source_key\<close> and
  \<^verbatim>\<open>target_key\<close> columns and a layer that the dataset has, a target for which the
  number of feature-index entries naming one of its regulators is strictly below
  \<^verbatim>\<open>min_regulators\<close> makes \<^verbatim>\<open>_fit_model\<close> return \<^verbatim>\<open>None\<close>, which is not an
  error, and no row of a result table of \<^verbatim>\<open>_compute_gene_expression_prediction\<close>
  carries that target, whatever \<^verbatim>\<open>n_jobs\<close> is. That number is the resolvable regulator
  count whenever no feature name is repeated in the index.
\<close>

theorem skipped_target_has_no_row:
  assumes sk: "source_key \<in> set (columns grn)"
      and tk: "target_key \<in> set (columns grn)"
      and lay: "layer_present ad layer"
      and few: "int (length (regulator_features grn ad target source_key target_key))
                  < min_regulators"
  shows "u_fit_model grn ad target model min_regulators source_key target_key layer verbose
           = Inr None
       \<and> (\<forall>n_jobs table r.
             u_compute_gene_expression_prediction grn ad model min_regulators source_key
                 target_key layer n_jobs verbose = Inr table
             \<and> r \<in> set (rows table)
             \<longrightarrow> r (KStr ''target'') \<noteq> CStr target)
       \<and> (distinct (var_index ad) \<longrightarrow>
             length (regulator_features grn ad target source_key target_key)
               = length (spec_resolvable_regulators grn ad target source_key target_key))"
proof -
  from select_data_returns [OF sk tk lay] obtain X y where
    sel: "u_select_data grn ad target source_key target_key layer True
            = Inr (X, y, Some (declared_regulators grn target source_key target_key))"
    by blast
  from select_data_shape1 [OF sel] few have "int (shape1 X) < min_regulators" by simp
  then have skip: "u_fit_model grn ad target model min_regulators source_key target_key layer
                     verbose = Inr None"
    using sel by (simp add: u_fit_model_def)
  have "r (KStr ''target'') \<noteq> CStr target"
    if ok: "u_compute_gene_expression_prediction grn ad model min_regulators source_key
              target_key layer n_jobs verbose = Inr table"
      and r: "r \<in> set (rows table)" for n_jobs table r
  proof
    assume eq: "r (KStr ''target'') = CStr target"
    from compute_rowD [OF ok r] obtain t d rg where
      fm: "u_fit_model grn ad t model min_regulators source_key target_key layer verbose
             = Inr (Some d)"
      and rd: "r = (dict_row d)(KStr ''n_regulators'' := CInt (int (length (rg :: string list))))"
      by blast
    from fit_model_SomeD [OF fm] have "dict_row d (KStr ''target'') = CStr t"
      by (auto simp: dict_row_def)
    with rd eq have "t = target" by simp
    with fm skip show False by simp
  qed
  with skip regulator_features_distinct [of ad grn target source_key target_key]
  show ?thesis by blast
qed

text \<open>
  With the threshold 1, gene H, whose only regulator Z is not in the dataset, is skipped,
  and the table of four workers has the row of gene G only.
\<close>

theorem skipped_target_has_no_row_witness:
  "u_fit_model grn_skip ex_adata ''H'' unit_estimator 1 (KStr ''tf'') (KStr ''gene'') None True
     = Inr None
   \<and> map_sum id values_tolist
       (u_compute_gene_expression_prediction grn_skip ex_adata unit_estimator 1
          (KStr ''tf'') (KStr ''gene'') None 4 True)
     = Inr [[CStr ''G'', CNum 1, CNum 0, CInt 2, CArr [''A''], CInt 1]]
   \<and> regulator_features grn_skip ex_adata ''H'' (KStr ''tf'') (KStr ''gene'') = []
   \<and> spec_resolvable_regulators grn_skip ex_adata ''H'' (KStr ''tf'') (KStr ''gene'') = []"
proof -
  have sk: "KStr ''tf'' \<in> set (columns grn_skip)" by (simp add: grn_skip_def)
  have tk: "KStr ''gene'' \<in> set (columns grn_skip)" by (simp add: grn_skip_def)
  have lay: "layer_present ex_adata None" by (simp add: layer_present_def)
  have few: "int (length (regulator_features grn_skip ex_adata ''H'' (KStr ''tf'')
                            (KStr ''gene''))) < 1"
    by (simp add: regulator_features_def declared_regulators_def ex_defs)
  from skipped_target_has_no_row [OF sk tk lay few, of unit_estimator True]
  show ?thesis
    by (simp add: ex_defs model_defs regulator_features_def declared_regulators_def
        spec_resolvable_regulators_def)
qed

subsection \<open>The shape of the rows\<close>

text \<open>
  Claim C7: in every row of the result table of \<^verbatim>\<open>_compute_gene_expression_prediction\<close>,
  \<^verbatim>\<open>n_cells\<close> is the number of samples of the dataset and \<^verbatim>\<open>n_regulators\<close> is the
  length of the row's \<^verbatim>\<open>regulators\<close> array.
\<close>

theorem result_rows_shape:
  assumes ok: "u_compute_gene_expression_prediction grn ad model min_regulators source_key
                 target_key layer n_jobs verbose = Inr table"
      and r: "r \<in> set (rows table)"
  shows "r (KStr ''n_cells'') = CInt (int (n_obs ad))
       \<and> (\<exists>regs. r (KStr ''regulators'') = CArr regs
                 \<and> r (KStr ''n_regulators'') = CInt (int (length regs)))"
proof -
  from compute_rowD [OF ok r] obtain t d rg where
    fm: "u_fit_model grn ad t model min_regulators source_key target_key layer verbose
           = Inr (Some d)"
    and rg: "dict_row d (KStr ''regulators'') = CArr rg"
    and rd: "r = (dict_row d)(KStr ''n_regulators'' := CInt (int (length rg)))"
    by blast
  from fit_model_SomeD [OF fm] obtain X y regs where
    sel: "u_select_data grn ad t source_key target_key layer True = Inr (X, y, Some regs)"
    and nc: "dict_row d (KStr ''n_cells'') = CInt (int (shape0 X))"
    by (auto simp: dict_row_def)
  from select_data_InrD [OF sel] have "shape0 X = n_obs ad" by simp
  with nc rg rd show ?thesis by simp
qed

theorem result_rows_shape_witness:
  "map_sum id values_tolist
     (u_compute_gene_expression_prediction grn_unresolved ex_adata unit_estimator 1
        (KStr ''tf'') (KStr ''gene'') None 1 True)
   = Inr [[CStr ''G'', CNum 1, CNum 0, CInt 2, CArr [''A'', ''Z''], CInt 2]]
   \<and> n_obs ex_adata = 2"
proof -
  let ?d = "[(KStr ''target'', CStr ''G''), (KStr ''r2'', CNum 1), (KStr ''mse'', CNum 0),
             (KStr ''n_cells'', CInt 2), (KStr ''regulators'', CArr [''A'', ''Z''])]"
  let ?t = "setitem (pd_DataFrame [?d]) (KStr ''n_regulators'') [CInt 2]"
  have ok: "u_compute_gene_expression_prediction grn_unresolved ex_adata unit_estimator 1
        (KStr ''tf'') (KStr ''gene'') None 1 True = Inr ?t"
    by (simp add: ex_defs model_defs)
  have r: "(dict_row ?d)(KStr ''n_regulators'' := CInt 2) \<in> set (rows ?t)"
    by (simp add: setitem_def pd_DataFrame_def)
  from result_rows_shape [OF ok r] ok
  show ?thesis by (simp add: ex_defs model_defs)
qed

subsection \<open>A layer that the dataset does not have\<close>

text \<open>
  Claim C4: when the requested layer is not on the dataset, \<^verbatim>\<open>_select_data\<close> fails
  with the error the specification calls LayerNotFoundError, and the failure aborts the
  whole batch. In the source the exception is a \<^verbatim>\<open>ValueError\<close> with the message
  \<^verbatim>\<open>Layer <name> not found in adata.\<close> The network table has its \<^verbatim>\<open>source_key\<close> and
  \<^verbatim>\<open>target_key\<close> columns, which are read before the layer is looked at. Every call of
  the Data Selector fails so, for every target and both values of
  \<^verbatim>\<open>return_regulators\<close>; and when the network has at least one row, hence a target to
  select data for, \<^verbatim>\<open>_compute_gene_expression_prediction\<close> ends with this error and
  produces no table. The worker count 0 is the one case in which no selector call is
  made: joblib rejects it first, and there is no table either.
\<close>

theorem missing_layer_aborts:
  assumes lay: "layers ad l = None"
      and sk: "source_key \<in> set (columns grn)"
      and tk: "target_key \<in> set (columns grn)"
  shows "u_select_data grn ad target source_key target_key (Some l) return_regulators
           = Inl (ValueError (''Layer '' @ l @ '' not found in adata.''))
       \<and> (rows grn \<noteq> [] \<longrightarrow>
            u_compute_gene_expression_prediction grn ad model min_regulators source_key
                target_key (Some l) n_jobs verbose
              = Inl (ValueError (if n_jobs = 0 then ''n_jobs == 0 in Parallel has no meaning''
                                 else ''Layer '' @ l @ '' not found in adata.'')))"
proof -
  let ?e = "ValueError (''Layer '' @ l @ '' not found in adata.'')"
  have sel: "u_select_data grn ad t source_key target_key (Some l) rr = Inl ?e" for t rr
    using lay sk tk by (simp add: u_select_data_def getitem_def columns_getitem_mask Let_def)
  have "u_compute_gene_expression_prediction grn ad model min_regulators source_key
            target_key (Some l) n_jobs verbose
          = Inl (ValueError (if n_jobs = 0 then ''n_jobs == 0 in Parallel has no meaning''
                             else ''Layer '' @ l @ '' not found in adata.''))"
    if ne: "rows grn \<noteq> []"
  proof (cases "n_jobs = 0")
    case True
    then show ?thesis using tk
      by (simp add: u_compute_gene_expression_prediction_def getitem_def Parallel_def)
  next
    case False
    from ne have "unique (map (\<lambda>r. r target_key) (rows grn)) \<noteq> []"
      by (simp add: unique_Nil_iff)
    with False have "Parallel n_jobs
        (map (\<lambda>t. u_fit_model grn ad t model min_regulators source_key target_key (Some l) verbose)
           (unique (map (\<lambda>r. r target_key) (rows grn)))) = Inl ?e"
      by (intro Parallel_all_Inl fit_model_Inl [OF sel])
    then show ?thesis using tk False
      by (simp add: u_compute_gene_expression_prediction_def getitem_def)
  qed
  with sel show ?thesis by blast
qed

theorem missing_layer_aborts_witness:
  "u_select_data grn_unresolved ex_adata ''G'' (KStr ''tf'') (KStr ''gene'') (Some ''counts'') True
     = Inl (ValueError ''Layer counts not found in adata.'')
   \<and> u_compute_gene_expression_prediction grn_unresolved ex_adata unit_estimator 1
        (KStr ''tf'') (KStr ''gene'') (Some ''counts'') 1 True
     = Inl (ValueError ''Layer counts not found in adata.'')"
  using missing_layer_aborts [of ex_adata "''counts''" "KStr ''tf''" grn_unresolved "KStr ''gene''"
      "''G''" True unit_estimator 1 1 True]
  by (simp add: ex_defs)

subsection \<open>The regulators sequence\<close>

text \<open>
  Claim C5 says that the regulators sequence of a target holds the distinct
  \<^verbatim>\<open>source_key\<close> values of its edges, each identifier at most once. The source takes
  \<^verbatim>\<open>sub_grn[source_key].values\<close> as it is: when the edge from A to G is listed twice,
  the sequence that \<^verbatim>\<open>_select_data\<close> returns and \<^verbatim>\<open>_fit_model\<close> records is A, A.
\<close>

theorem duplicate_edge_repeats_regulator:
  "map_sum id (snd \<circ> snd)
     (u_select_data grn_dup ex_adata ''G'' (KStr ''tf'') (KStr ''gene'') None True)
     = Inr (Some [''A'', ''A''])
   \<and> map_sum id (map_option (\<lambda>d. dict_row d (KStr ''regulators'')))
       (u_fit_model grn_dup ex_adata ''G'' unit_estimator 1 (KStr ''tf'') (KStr ''gene'') None True)
     = Inr (Some (CArr [''A'', ''A'']))
   \<and> \<not> distinct [''A'', ''A'']"
  by (simp add: ex_defs model_defs)

text \<open>
  Claim C5 as amended: the regulators sequence that the Data Selector returns, and that the
  fit result of the target records, consists of the \<^verbatim>\<open>source_key\<close> values of the edges
  whose \<^verbatim>\<open>target_key\<close> equals the target, one entry per edge in the order of the table;
  an identifier occurs as often as the target has edges from it.
\<close>

theorem regulators_one_per_edge:
  assumes sel: "u_select_data grn ad target source_key target_key layer True = Inr (X, y, ro)"
  shows "ro = Some (map (\<lambda>r. r source_key) (filter (\<lambda>r. r target_key = target) (rows grn)))
       \<and> (\<forall>d. u_fit_model grn ad target model min_regulators source_key target_key layer verbose
                 = Inr (Some d)
              \<longrightarrow> dict_row d (KStr ''regulators'')
                    = CArr (map (\<lambda>r. r source_key)
                              (filter (\<lambda>r. r target_key = target) (rows grn))))"
proof -
  let ?regs = "map (\<lambda>r. r source_key) (filter (\<lambda>r. r target_key = target) (rows grn))"
  from select_data_InrD [OF sel] have ro: "ro = Some ?regs" by simp
  have "dict_row d (KStr ''regulators'') = CArr ?regs"
    if fm: "u_fit_model grn ad target model min_regulators source_key target_key layer verbose
              = Inr (Some d)" for d
    using fit_model_SomeD [OF fm] sel ro by (auto simp: dict_row_def)
  with ro show ?thesis by blast
qed

theorem regulators_one_per_edge_witness:
  "map_sum id (snd \<circ> snd)
     (u_select_data grn_dup ex_adata ''G'' (KStr ''tf'') (KStr ''gene'') None True)
     = Inr (Some (map (\<lambda>r. r (KStr ''tf''))
                   (filter (\<lambda>r. r (KStr ''gene'') = ''G'') (rows grn_dup))))
   \<and> map (\<lambda>r. r (KStr ''tf'')) (filter (\<lambda>r. r (KStr ''gene'') = ''G'') (rows grn_dup))
       = [''A'', ''A'']"
proof -
  have sel: "u_select_data grn_dup ex_adata ''G'' (KStr ''tf'') (KStr ''gene'') None True
       = Inr (take_features ex_adata (X_matrix ex_adata) [0], [0, 0], Some [''A'', ''A''])"
    by (simp add: ex_defs model_defs)
  from regulators_one_per_edge [OF sel, of unit_estimator 1 True] sel
  show ?thesis by (simp add: ex_defs)
qed

subsection \<open>The derived column and the in-place write\<close>

text \<open>
  Claim C6 says that the orchestrator appends the column \<^verbatim>\<open>n_regulators\<close> and that the
  table, with that column, is returned or, in place, written under the key
  \<^verbatim>\<open>gene_expression_prediction\<close>. The two halves live in different functions.
  \<^verbatim>\<open>_compute_gene_expression_prediction\<close> appends the column and returns the table;
  it never writes in place. \<^verbatim>\<open>compute_gene_expression_prediction\<close>, the only one that
  writes in place, never appends the column. Called in place with \<^verbatim>\<open>verbose=True\<close>
  on the network whose regulator column is keyed \<^verbatim>\<open>True\<close>, it stores under the key a
  table of the one row of G with the five columns of the fit result and no
  \<^verbatim>\<open>n_regulators\<close>, where its sibling, given the same network and the keys
  \<^verbatim>\<open>True\<close> and \<^verbatim>\<open>gene\<close>, returns the row with \<^verbatim>\<open>n_regulators\<close> = 1. On the
  network with the usual regulator column \<^verbatim>\<open>tf\<close> it stores nothing at all: it raises
  KeyError (see C10), where its sibling returns the row with the column.
\<close>

theorem public_entry_point_omits_n_regulators:
  "map_sum id (\<lambda>(md, ret). (map_option (\<lambda>t. (columns t, values_tolist t))
                                 (uns md ''gene_expression_prediction''), ret))
     (compute_gene_expression_prediction (ex_mdata grn_bool_key) ''grn'' None ''rna''
        unit_estimator 1 1 True True)
     = Inr (Some ([KStr ''target'', KStr ''r2'', KStr ''mse'', KStr ''n_cells'',
                   KStr ''regulators''],
                  [[CStr ''G'', CNum 1, CNum 0, CInt 2, CArr [''A'']]]), None)
   \<and> map_sum id (\<lambda>t. (columns t, values_tolist t))
       (u_compute_gene_expression_prediction grn_bool_key ex_adata unit_estimator 1
          (KBool True) (KStr ''gene'') None 1 True)
     = Inr ([KStr ''target'', KStr ''r2'', KStr ''mse'', KStr ''n_cells'',
             KStr ''regulators'', KStr ''n_regulators''],
            [[CStr ''G'', CNum 1, CNum 0, CInt 2, CArr [''A''], CInt 1]])
   \<and> compute_gene_expression_prediction (ex_mdata grn_target) ''grn'' None ''rna''
        unit_estimator 1 1 True True
     = Inl (KeyError (KBool True))
   \<and> map_sum id (\<lambda>t. (columns t, values_tolist t))
       (u_compute_gene_expression_prediction grn_target ex_adata unit_estimator 1
          (KStr ''tf'') (KStr ''gene'') None 1 True)
     = Inr ([KStr ''target'', KStr ''r2'', KStr ''mse'', KStr ''n_cells'',
             KStr ''regulators'', KStr ''n_regulators''],
            [[CStr ''G'', CNum 1, CNum 0, CInt 2, CArr [''A''], CInt 1]])"
  by (simp add: ex_defs model_defs public_defs)

subsection \<open>The two entry points\<close>


subsection \<open>The positional call of the public entry point\<close>

text \<open>
  Claim C10 says that, \<^verbatim>\<open>verbose\<close> being bound to \<^verbatim>\<open>source_key\<close> and
  \<^verbatim>\<open>target_key\<close> left at \<^verbatim>\<open>"gene"\<close>, every call on a non-empty network without a
  column keyed by the boolean raises a key-lookup error. Two kinds of call end
  otherwise, on the network of the single edge from A to G, which has no such column.
  With \<^verbatim>\<open>inplace=False\<close> the store is rebuilt first and the call raises AttributeError
  before it reaches the fitter. With the worker count 0 joblib raises ValueError before
  any task runs.
\<close>

theorem positional_call_not_reached:
  "compute_gene_expression_prediction (ex_mdata grn_target) ''grn'' None ''rna''
       unit_estimator 1 1 True False
     = Inl AttributeError
   \<and> compute_gene_expression_prediction (ex_mdata grn_target) ''grn'' None ''rna''
       unit_estimator 1 0 True True
     = Inl (ValueError ''n_jobs == 0 in Parallel has no meaning'')
   \<and> rows grn_target \<noteq> [] \<and> KBool True \<notin> set (columns grn_target)"
  by (simp add: ex_defs model_defs public_defs)

text \<open>
  Claim C10 as amended: in \<^verbatim>\<open>compute_gene_expression_prediction\<close> the positional call
  gives \<^verbatim>\<open>verbose\<close> to the parameter \<^verbatim>\<open>source_key\<close> of \<^verbatim>\<open>_fit_model\<close> and leaves
  \<^verbatim>\<open>target_key\<close> at \<^verbatim>\<open>"gene"\<close>. So for every call in place, with a worker count
  other than 0, whose network (the stored table, after the optional subsetting by cell
  type, which is the stored table itself for the default \<^verbatim>\<open>celltype=None\<close>) has at
  least one row and no column whose key equals the boolean, the call raises KeyError and
  produces no table: for the data key, for \<^verbatim>\<open>target\<close> or for \<^verbatim>\<open>gene\<close> when one of
  these is missing, and for the boolean otherwise.
\<close>

theorem positional_call_raises_KeyError:
  assumes g0: "grn_mod mdata grn_key = Some grn0"
      and sub: "celltype_subset celltype grn0 = Inr grn"
      and ne: "rows grn \<noteq> []"
      and nb: "KBool verbose \<notin> set (columns grn)"
      and nj: "n_jobs \<noteq> 0"
  shows "compute_gene_expression_prediction mdata grn_key celltype data_key model min_regulators
             n_jobs verbose True
           = Inl (KeyError
                   (if data_mod mdata data_key = None then KStr data_key
                    else if KStr ''target'' \<notin> set (columns grn) then KStr ''target''
                    else if KStr ''gene'' \<notin> set (columns grn) then KStr ''gene''
                    else KBool verbose))"
proof (cases "data_mod mdata data_key")
  case None
  with g0 sub show ?thesis
    by (simp add: public_defs split: option.splits)
next
  case (Some ad)
  let ?e = "KeyError (if KStr ''gene'' \<notin> set (columns grn) then KStr ''gene'' else KBool verbose)"
  have fm: "u_fit_model grn ad t model min_regulators (KBool verbose) (KStr ''gene'') None True
              = Inl ?e" for t
    using nb select_data_KeyError [of "KBool verbose" grn "KStr ''gene''" ad t None True]
    by (simp add: fit_model_Inl)
  have par: "Parallel n_jobs
        (map (\<lambda>t. u_fit_model grn ad t model min_regulators (KBool verbose) (KStr ''gene'')
                    None True)
           (unique (map (\<lambda>r. r (KStr ''target'')) (rows grn)))) = Inl ?e"
    using ne nj by (intro Parallel_all_Inl fm) (simp_all add: unique_Nil_iff)
  with g0 sub Some show ?thesis
    by (simp add: compute_gene_expression_prediction_def mdata_grn_def mdata_data_def
        getitem_def)
qed

theorem positional_call_raises_KeyError_witness:
  "compute_gene_expression_prediction (ex_mdata grn_target) ''grn'' None ''rna'' unit_estimator 1
       1 True True
     = Inl (KeyError (KBool True))
   \<and> rows grn_target \<noteq> [] \<and> KBool True \<notin> set (columns grn_target)"
proof -
  have g0: "grn_mod (ex_mdata grn_target) ''grn'' = Some grn_target"
    by (simp add: ex_mdata_def)
  have sub: "celltype_subset None grn_target = Inr grn_target"
    by (simp add: celltype_subset_def)
  have ne: "rows grn_target \<noteq> []" by (simp add: grn_target_def)
  have nb: "KBool True \<notin> set (columns grn_target)" by (simp add: grn_target_def KBool_def)
  have nj: "(1::int) \<noteq> 0" by simp
  from positional_call_raises_KeyError [OF g0 sub ne nb nj, of "''rna''" unit_estimator 1]
    ne nb
  show ?thesis by (simp add: ex_mdata_def grn_target_def KBool_def)
qed

end
